theory Spec2Isabelle
  imports Complex_Main "HOL-Library.Sublist" "HOL-Library.Multiset"
begin

section \<open>Data model of the event search repository\<close>

text \<open>
  The index-side document (type \<open>EventDocument\<close> of the source) and the canonical
  event (class \<open>Event\<close>, of which the repository reads and writes the eleven fields
  below). The field \<open>id\<close> is written \<open>id'\<close>, since \<open>id\<close> is the identity function
  of HOL. A JavaScript number is an \<open>int\<close> where the relay carries an integer (kinds,
  timestamps in seconds, limits) and a \<open>real\<close>, the value of the binary64 number,
  where the engine supplies a fraction (the ranking score) or the source computes with
  one (the score); \<open>null\<close> and \<open>undefined\<close> are \<open>None\<close>.
\<close>

record EventDocument =
  id' :: string
  pubkey :: string
  author :: string
  createdAt :: int
  kind :: int
  tags :: "string list list"
  genericTags :: "string list"
  content :: string
  sig :: string
  expiredAt :: "int option"
  dTagValue :: "string option"

record Event =
  id' :: string
  pubkey :: string
  author :: string
  createdAt :: int
  kind :: int
  tags :: "string list list"
  genericTags :: "string list"
  content :: string
  sig :: string
  expiredAt :: "int option"
  dTagValue :: "string option"

text \<open>
  A search hit is a document together with the optional \<open>_rankingScore\<close> the engine
  attaches to it.
\<close>

record hit = EventDocument +
  rankingScore :: "real option"

text \<open>The result type \<open>TEventIdWithScore\<close> of the scored search.\<close>

record TEventIdWithScore =
  id' :: string
  score :: real

text \<open>
  The fields of \<open>SearchFilter\<close> picked by \<open>EventSearchRepositoryFilter\<close>. Every
  optional field is an \<open>option\<close>; \<open>searchOptions\<close> is passed through unread.
\<close>

typedecl search_options

record EventSearchRepositoryFilter =
  ids :: "string list option"
  authors :: "string list option"
  dTagValues :: "string list option"
  genericTagsCollection :: "string list list option"
  kinds :: "int list option"
  limit :: "int option"
  search :: string
  searchOptions :: "search_options option"
  since :: "int option"
  until :: "int option"

section \<open>The engine, its calls and the observable effects\<close>

text \<open>
  The four methods of the engine's index handle the repository uses. Each call either
  resolves with a value or rejects with an error, so a method is a function into a sum
  with the error on the left.
\<close>

datatype engine_error = EngineError string

record settings =
  searchableAttributes :: "string list"
  filterableAttributes :: "string list"
  sortableAttributes :: "string list"
  rankingRules :: "string list"

record search_params =
  limit :: int
  filter' :: "string list"
  sort' :: "string list option"
  attributesToRetrieve :: "string list option"
  showRankingScore :: "bool option"

record engine =
  updateSettings :: "settings \<Rightarrow> engine_error + unit"
  search :: "string \<Rightarrow> search_params \<Rightarrow> engine_error + hit list"
  addDocuments :: "EventDocument list \<Rightarrow> engine_error + unit"
  deleteDocuments :: "string list \<Rightarrow> engine_error + unit"

datatype engine_call =
    UpdateSettings settings
  | Search string search_params
  | AddDocuments "EventDocument list"
  | DeleteDocuments "string list"

text \<open>
  What an operation leaves behind: the engine calls it issued, in the order of issue,
  and the errors it handed to the logger.
\<close>

record world =
  calls :: "engine_call list"
  logged :: "engine_error list"

text \<open>
  The repository object: the optional index handle (absent when host or API key is
  missing from the configuration) and the configured list of kinds to synchronise.
\<close>

record EventSearchRepository =
  index :: "engine option"
  syncEventKinds :: "int list"

section \<open>Rendering of numbers and lists into filter expressions\<close>

text \<open>
  The decimal text of an integer, which is what a template literal and
  \<open>Array.prototype.join\<close> produce for an integral number below \<open>10^21\<close> in
  absolute value.
\<close>

fun showNat :: "nat \<Rightarrow> string" where
  "showNat n =
     (if n < 10 then [''0123456789'' ! n]
      else showNat (n div 10) @ [''0123456789'' ! (n mod 10)])"

declare showNat.simps [simp del]

definition numberToString :: "int \<Rightarrow> string" where
  "numberToString i = (if i < 0 then CHR ''-'' # showNat (nat (- i)) else showNat (nat i))"

fun join :: "string \<Rightarrow> string list \<Rightarrow> string" where
  "join sep [] = []"
| "join sep [x] = x"
| "join sep (x # y # ys) = x @ sep @ join sep (y # ys)"

section \<open>The filter translator\<close>

text \<open>
  \<open>buildSearchFilters\<close>, with the reading of the clock (\<open>getTimestampInSeconds()\<close>)
  as the argument \<open>now\<close>. The pushes onto \<open>searchFilters\<close> are the appended segments,
  in the order of the source. The test \<open>xs?.length\<close> holds exactly for a present,
  non-empty array, and the test on a number exactly when it is present and not zero.
\<close>

definition buildSearchFilters :: "int \<Rightarrow> EventSearchRepositoryFilter \<Rightarrow> string list" where
  "buildSearchFilters now f =
     [''expiredAt IS NULL OR expiredAt >= '' @ numberToString now]
     @ (case ids f of
          None \<Rightarrow> []
        | Some xs \<Rightarrow> if xs \<noteq> [] then [''id IN ['' @ join '', '' xs @ '']''] else [])
     @ (case kinds f of
          None \<Rightarrow> []
        | Some ks \<Rightarrow>
            if ks \<noteq> [] then [''kind IN ['' @ join '', '' (map numberToString ks) @ '']'']
            else [])
     @ (case since f of
          None \<Rightarrow> []
        | Some s \<Rightarrow> if s \<noteq> 0 then [''createdAt >= '' @ numberToString s] else [])
     @ (case until f of
          None \<Rightarrow> []
        | Some u \<Rightarrow> if u \<noteq> 0 then [''createdAt <= '' @ numberToString u] else [])
     @ (case authors f of
          None \<Rightarrow> []
        | Some xs \<Rightarrow> if xs \<noteq> [] then [''author IN ['' @ join '', '' xs @ '']''] else [])
     @ (case genericTagsCollection f of
          None \<Rightarrow> []
        | Some gs \<Rightarrow>
            if gs \<noteq> []
            then map (\<lambda>genericTags. ''genericTags IN ['' @ join '', '' genericTags @ '']'') gs
            else [])
     @ (case dTagValues f of
          None \<Rightarrow> []
        | Some xs \<Rightarrow> if xs \<noteq> [] then [''dTagValue IN ['' @ join '', '' xs @ '']''] else [])"

text \<open>\<open>getLimitFrom\<close>: \<open>Math.min(isNil(filter.limit) ? defaultLimit : filter.limit, 1000)\<close>.\<close>

definition getLimitFrom :: "EventSearchRepositoryFilter \<Rightarrow> int \<Rightarrow> int" where
  "getLimitFrom f defaultLimit =
     min (case EventSearchRepositoryFilter.limit f of None \<Rightarrow> defaultLimit | Some l \<Rightarrow> l) 1000"

section \<open>The document mapper\<close>

definition toEventDocument :: "Event \<Rightarrow> EventDocument" where
  "toEventDocument event =
     \<lparr> EventDocument.id' = Event.id' event,
       EventDocument.pubkey = Event.pubkey event,
       EventDocument.author = Event.author event,
       EventDocument.createdAt = Event.createdAt event,
       EventDocument.kind = Event.kind event,
       EventDocument.tags = Event.tags event,
       EventDocument.genericTags = Event.genericTags event,
       EventDocument.content = Event.content event,
       EventDocument.sig = Event.sig event,
       EventDocument.expiredAt = Event.expiredAt event,
       EventDocument.dTagValue = Event.dTagValue event \<rparr>"

definition toEvent :: "'a EventDocument_scheme \<Rightarrow> Event" where
  "toEvent eventDocument =
     \<lparr> Event.id' = EventDocument.id' eventDocument,
       Event.pubkey = EventDocument.pubkey eventDocument,
       Event.author = EventDocument.author eventDocument,
       Event.createdAt = EventDocument.createdAt eventDocument,
       Event.kind = EventDocument.kind eventDocument,
       Event.tags = EventDocument.tags eventDocument,
       Event.genericTags = EventDocument.genericTags eventDocument,
       Event.content = EventDocument.content eventDocument,
       Event.sig = EventDocument.sig eventDocument,
       Event.expiredAt = EventDocument.expiredAt eventDocument,
       Event.dTagValue = EventDocument.dTagValue eventDocument \<rparr>"

section \<open>The operations of the repository\<close>

text \<open>
  The method \<open>find\<close> is written \<open>find'\<close>, since \<open>find\<close> is a function on lists in
  HOL. An operation takes the repository, its arguments and the effects so far, and returns
  its outcome (\<open>Inl\<close> for a rejected promise, \<open>Inr\<close> for the resolved value) with the
  effects after it. An engine call is recorded when it is issued, whatever it answers.
\<close>

definition issue :: "engine_call \<Rightarrow> world \<Rightarrow> world" where
  "issue c w = w\<lparr>calls := calls w @ [c]\<rparr>"

definition logError :: "engine_error \<Rightarrow> world \<Rightarrow> world" where
  "logError e w = w\<lparr>logged := logged w @ [e]\<rparr>"

definition indexSettings :: settings where
  "indexSettings =
     \<lparr> searchableAttributes = [''content''],
       filterableAttributes =
         [''id'', ''author'', ''createdAt'', ''kind'', ''genericTags'', ''delegator'',
          ''expiredAt'', ''dTagValue''],
       sortableAttributes = [''createdAt''],
       rankingRules =
         [''sort'', ''words'', ''typo'', ''proximity'', ''attribute'', ''exactness'',
          ''createdAt:desc''] \<rparr>"

definition onApplicationBootstrap ::
  "EventSearchRepository \<Rightarrow> world \<Rightarrow> (engine_error + unit) \<times> world" where
  "onApplicationBootstrap r w =
     (case index r of
        None \<Rightarrow> (Inr (), w)
      | Some idx \<Rightarrow> (updateSettings idx indexSettings, issue (UpdateSettings indexSettings) w))"

definition find' ::
  "EventSearchRepository \<Rightarrow> int \<Rightarrow> EventSearchRepositoryFilter \<Rightarrow> world
     \<Rightarrow> (engine_error + Event list) \<times> world" where
  "find' r now f w =
     (case index r of
        None \<Rightarrow> (Inr [], w)
      | Some idx \<Rightarrow>
          (let limit = getLimitFrom f 100 in
           if limit = 0 then (Inr [], w)
           else
             (let searchFilters = buildSearchFilters now f;
                  params = \<lparr> search_params.limit = limit, filter' = searchFilters,
                             sort' = Some [''createdAt:desc''],
                             attributesToRetrieve = None, showRankingScore = None \<rparr>
              in (case search idx (EventSearchRepositoryFilter.search f) params of
                    Inl err \<Rightarrow> Inl err
                  | Inr hits \<Rightarrow> Inr (map toEvent hits),
                  issue (Search (EventSearchRepositoryFilter.search f) params) w))))"

text \<open>
  The score \<open>hit.createdAt * (1 + (hit._rankingScore ?? 0))\<close> is computed in binary64:
  the sum is rounded to the nearest representable number, and so is the product of
  \<open>createdAt\<close> with the rounded sum. The rounding of the arithmetic is the argument
  \<open>rnd\<close>, which maps the exact result of an operation to the number the operation
  returns.
\<close>

definition findTopIdsWithScore ::
  "(real \<Rightarrow> real) \<Rightarrow> EventSearchRepository \<Rightarrow> int \<Rightarrow> EventSearchRepositoryFilter \<Rightarrow> world
     \<Rightarrow> (engine_error + TEventIdWithScore list) \<times> world" where
  "findTopIdsWithScore rnd r now f w =
     (case index r of
        None \<Rightarrow> (Inr [], w)
      | Some idx \<Rightarrow>
          (let limit = getLimitFrom f 100 in
           if limit = 0 then (Inr [], w)
           else
             (let searchFilters = buildSearchFilters now f;
                  params = \<lparr> search_params.limit = limit, filter' = searchFilters,
                             sort' = None,
                             attributesToRetrieve = Some [''id'', ''createdAt''],
                             showRankingScore = Some True \<rparr>
              in (case search idx (EventSearchRepositoryFilter.search f) params of
                    Inl err \<Rightarrow> Inl err
                  | Inr hits \<Rightarrow>
                      Inr (map (\<lambda>hit.
                             \<lparr> TEventIdWithScore.id' = EventDocument.id' hit,
                               score =
                                 rnd (of_int (EventDocument.createdAt hit)
                                   * rnd (1 + (case rankingScore hit of
                                                 None \<Rightarrow> 0 | Some s \<Rightarrow> s))) \<rparr>)
                           hits),
                  issue (Search (EventSearchRepositoryFilter.search f) params) w))))"

text \<open>
  \<open>add\<close> and \<open>deleteMany\<close> wrap their engine call in \<open>try\<close>/\<open>catch\<close>: a rejection
  goes to the logger and the operation resolves.
\<close>

definition add :: "EventSearchRepository \<Rightarrow> Event \<Rightarrow> world \<Rightarrow> (engine_error + unit) \<times> world" where
  "add r event w =
     (case index r of
        None \<Rightarrow> (Inr (), w)
      | Some idx \<Rightarrow>
          if Event.kind event \<notin> set (syncEventKinds r) then (Inr (), w)
          else
            (let docs = [toEventDocument event]; w1 = issue (AddDocuments docs) w
             in case addDocuments idx docs of
                  Inl error \<Rightarrow> (Inr (), logError error w1)
                | Inr _ \<Rightarrow> (Inr (), w1)))"

definition deleteMany ::
  "EventSearchRepository \<Rightarrow> string list \<Rightarrow> world \<Rightarrow> (engine_error + unit) \<times> world" where
  "deleteMany r eventIds w =
     (case index r of
        None \<Rightarrow> (Inr (), w)
      | Some idx \<Rightarrow>
          (let w1 = issue (DeleteDocuments eventIds) w
           in case deleteDocuments idx eventIds of
                Inl error \<Rightarrow> (Inr (), logError error w1)
              | Inr _ \<Rightarrow> (Inr (), w1)))"

text \<open>
  \<open>replace\<close> hands \<open>[this.add(event), oldEventId ? this.deleteMany([oldEventId]) :
  undefined]\<close> to \<open>Promise.all\<close>. The array is built left to right and each method
  runs up to its \<open>await\<close> when it is called, so the engine call of \<open>add\<close> is issued
  first and that of \<open>deleteMany\<close> second, both before either answer is in. The part of
  each method after its \<open>await\<close> (the \<open>catch\<close> that logs a rejection) runs when its
  answer arrives, and the two answers arrive in either order: the order is the
  argument \<open>arrival\<close>. The old id is used when it is truthy: present and not the empty
  string. Both members always resolve, so \<open>Promise.all\<close> resolves once both have.

  \<open>addStart\<close> and \<open>deleteManyStart\<close> are \<open>add\<close> and \<open>deleteMany\<close> up to the
  \<open>await\<close>: they return the pending answer of the engine, \<open>None\<close> when the method
  returned at its guard. \<open>settle\<close> is the rest of either method.
\<close>

datatype arrival = AddFirst | DeleteFirst

definition addStart ::
  "EventSearchRepository \<Rightarrow> Event \<Rightarrow> world \<Rightarrow> (engine_error + unit) option \<times> world" where
  "addStart r event w =
     (case index r of
        None \<Rightarrow> (None, w)
      | Some idx \<Rightarrow>
          if Event.kind event \<notin> set (syncEventKinds r) then (None, w)
          else
            (let docs = [toEventDocument event]
             in (Some (addDocuments idx docs), issue (AddDocuments docs) w)))"

definition deleteManyStart ::
  "EventSearchRepository \<Rightarrow> string list \<Rightarrow> world
     \<Rightarrow> (engine_error + unit) option \<times> world" where
  "deleteManyStart r eventIds w =
     (case index r of
        None \<Rightarrow> (None, w)
      | Some idx \<Rightarrow> (Some (deleteDocuments idx eventIds), issue (DeleteDocuments eventIds) w))"

definition settle :: "(engine_error + unit) option \<Rightarrow> world \<Rightarrow> world" where
  "settle answer w =
     (case answer of
        None \<Rightarrow> w
      | Some (Inl error) \<Rightarrow> logError error w
      | Some (Inr _) \<Rightarrow> w)"

definition replace ::
  "EventSearchRepository \<Rightarrow> Event \<Rightarrow> string option \<Rightarrow> arrival \<Rightarrow> world
     \<Rightarrow> (engine_error + unit) \<times> world" where
  "replace r event oldEventId arr w =
     (case index r of
        None \<Rightarrow> (Inr (), w)
      | Some idx \<Rightarrow>
          (let (a, w1) = addStart r event w;
               (d, w2) = (case oldEventId of
                            None \<Rightarrow> (None, w1)
                          | Some oid \<Rightarrow>
                              if oid \<noteq> [] then deleteManyStart r [oid] w1 else (None, w1))
           in (Inr (),
               case arr of
                 AddFirst \<Rightarrow> settle d (settle a w2)
               | DeleteFirst \<Rightarrow> settle a (settle d w2))))"

section \<open>Clause recognisers and concrete fixtures\<close>

text \<open>
  A clause over \<open>genericTags\<close> is recognised by its opening text; \<open>genericTagsClause\<close>
  is the clause that lists the values of one group.
\<close>

definition isGenericTagsClause :: "string \<Rightarrow> bool" where
  "isGenericTagsClause c = prefix ''genericTags IN ['' c"

definition genericTagsClause :: "string list \<Rightarrow> string" where
  "genericTagsClause g = ''genericTags IN ['' @ join '', '' g @ '']''"

text \<open>
  Fixtures for the concrete instances below: a filter with every optional field absent,
  a text note, hits carrying a given time and ranking score, an engine whose writes fail
  on demand, an enabled and a disabled repository, and the world before any call.
\<close>

definition emptyFilter :: EventSearchRepositoryFilter where
  "emptyFilter =
     \<lparr> ids = None, authors = None, dTagValues = None, genericTagsCollection = None,
       kinds = None, limit = None, search = [], searchOptions = None,
       since = None, until = None \<rparr>"

definition noteEvent :: "int \<Rightarrow> Event" where
  "noteEvent k =
     \<lparr> Event.id' = ''e1'', pubkey = ''pk'', author = ''pk'', createdAt = 1000, kind = k,
       tags = [[''t'', ''nostr'']], genericTags = [''t:nostr''], content = ''hello'',
       sig = ''sg'', expiredAt = None, dTagValue = None \<rparr>"

definition scoredHit :: "string \<Rightarrow> int \<Rightarrow> real option \<Rightarrow> hit" where
  "scoredHit i c rs =
     \<lparr> EventDocument.id' = i, pubkey = ''pk'', author = ''pk'', createdAt = c, kind = 1,
       tags = [], genericTags = [], content = ''hello'', sig = ''sg'',
       expiredAt = None, dTagValue = None, rankingScore = rs \<rparr>"

definition stubEngine :: "bool \<Rightarrow> bool \<Rightarrow> engine" where
  "stubEngine addFails deleteFails =
     \<lparr> updateSettings = (\<lambda>_. Inr ()),
       search = (\<lambda>_ _. Inr [scoredHit ''a'' 1000 (Some (1 / 2)), scoredHit ''b'' 1000 (Some 0),
                            scoredHit ''c'' 1000 None,
                            scoredHit ''d'' 1700000000
                              (Some (3602879701896397 / 36028797018963968))]),
       addDocuments = (\<lambda>_. if addFails then Inl (EngineError ''add'') else Inr ()),
       deleteDocuments = (\<lambda>_. if deleteFails then Inl (EngineError ''delete'') else Inr ()) \<rparr>"

definition stubRepository :: "bool \<Rightarrow> bool \<Rightarrow> EventSearchRepository" where
  "stubRepository addFails deleteFails =
     \<lparr> index = Some (stubEngine addFails deleteFails), syncEventKinds = [1, 30023] \<rparr>"

definition disabledRepository :: EventSearchRepository where
  "disabledRepository = \<lparr> index = None, syncEventKinds = [1, 30023] \<rparr>"

definition quiet :: world where
  "quiet = \<lparr> calls = [], logged = [] \<rparr>"

text \<open>
  The rounding of binary64 arithmetic, to the nearest representable number and to the
  even significand on a tie, for results below \<open>2^1024\<close> in absolute value (beyond
  it the arithmetic gives an infinity, which is no real). \<open>scale\<close> brings the
  significand into \<open>[2^52, 2^53)\<close>, or stops at the least exponent \<open>-1074\<close> of the
  subnormal numbers; its first argument bounds the steps and exceeds the width of the
  exponent range.
\<close>

definition roundHalfEven :: "real \<Rightarrow> int" where
  "roundHalfEven x =
     (let n = \<lfloor>x\<rfloor>; d = x - of_int n
      in if d < 1 / 2 then n else if 1 / 2 < d then n + 1 else if even n then n else n + 1)"

fun scale :: "nat \<Rightarrow> real \<Rightarrow> int \<Rightarrow> real \<times> int" where
  "scale fuel m e =
     (if fuel = 0 then (m, e)
      else if 2 ^ 53 \<le> \<bar>m\<bar> then scale (fuel - 1) (m / 2) (e + 1)
      else if \<bar>m\<bar> < 2 ^ 52 \<and> - 1074 < e then scale (fuel - 1) (m * 2) (e - 1)
      else (m, e))"

declare scale.simps [simp del]

definition binary64 :: "real \<Rightarrow> real" where
  "binary64 x =
     (if x = 0 then 0
      else (let (m, e) = scale 2200 x 0
            in if 0 \<le> e then of_int (roundHalfEven m) * 2 ^ nat e
               else of_int (roundHalfEven m) / 2 ^ nat (- e)))"

section \<open>Properties\<close>

subsection \<open>Shape of the clause list\<close>

lemma isGenericTagsClause_genericTagsClause: "isGenericTagsClause (genericTagsClause g)"
  by (simp add: isGenericTagsClause_def genericTagsClause_def)

lemma filter_genericTagsClauses:
  "filter isGenericTagsClause (map genericTagsClause gs) = map genericTagsClause gs"
  by (induction gs) (simp_all add: isGenericTagsClause_genericTagsClause)

lemma other_clauses_not_generic:
  "\<not> isGenericTagsClause (''expiredAt IS NULL OR expiredAt >= '' @ s)"
  "\<not> isGenericTagsClause (''id IN ['' @ s)"
  "\<not> isGenericTagsClause (''kind IN ['' @ s)"
  "\<not> isGenericTagsClause (''createdAt >= '' @ s)"
  "\<not> isGenericTagsClause (''createdAt <= '' @ s)"
  "\<not> isGenericTagsClause (''author IN ['' @ s)"
  "\<not> isGenericTagsClause (''dTagValue IN ['' @ s)"
  by (simp_all add: isGenericTagsClause_def)

lemma filter_buildSearchFilters:
  "filter isGenericTagsClause (buildSearchFilters now f) =
     (case genericTagsCollection f of None \<Rightarrow> [] | Some gs \<Rightarrow> map genericTagsClause gs)"
proof -
  have m: "map (\<lambda>genericTags. ''genericTags IN ['' @ join '', '' genericTags @ '']'') gs
             = map genericTagsClause gs" for gs
    by (simp add: genericTagsClause_def)
  show ?thesis
    unfolding buildSearchFilters_def m
    by (simp add: other_clauses_not_generic filter_genericTagsClauses
          split: option.split del: append.simps)
qed

lemma numberToString_now: "numberToString 1700000000 = ''1700000000''"
  by (simp add: numberToString_def showNat.simps)

text \<open>
  C1. When the filter's \<open>genericTagsCollection\<close> holds the groups \<open>gs\<close>, the clauses of
  \<open>buildSearchFilters\<close> that test \<open>genericTags\<close> are, in this order, one clause per
  group of \<open>gs\<close>, each the membership clause listing that group's values joined by a
  comma and a space; there are as many of them as groups. No other clause of the list
  tests \<open>genericTags\<close>. (The list as a whole is handed to the engine as a conjunction;
  \<open>IN\<close> is the engine's disjunction over the listed values.)
\<close>

theorem buildSearchFilters_genericTags_clauses:
  assumes "genericTagsCollection f = Some gs"
  shows "filter isGenericTagsClause (buildSearchFilters now f)
           = map (\<lambda>g. ''genericTags IN ['' @ join '', '' g @ '']'') gs
         \<and> length (filter isGenericTagsClause (buildSearchFilters now f)) = length gs"
proof -
  have "filter isGenericTagsClause (buildSearchFilters now f) = map genericTagsClause gs"
    using assms by (simp add: filter_buildSearchFilters)
  then show ?thesis by (simp add: genericTagsClause_def)
qed

theorem buildSearchFilters_genericTags_clauses_witness:
  "genericTagsCollection
     (emptyFilter\<lparr>ids := Some [''ab''], since := Some 100,
        genericTagsCollection := Some [[''t:a'', ''t:b''], [], [''p:x'']]\<rparr>)
     = Some [[''t:a'', ''t:b''], [], [''p:x'']]
   \<and> filter isGenericTagsClause
       (buildSearchFilters 1700000000
          (emptyFilter\<lparr>ids := Some [''ab''], since := Some 100,
             genericTagsCollection := Some [[''t:a'', ''t:b''], [], [''p:x'']]\<rparr>))
     = [''genericTags IN [t:a, t:b]'', ''genericTags IN []'', ''genericTags IN [p:x]'']"
proof -
  let ?f = "emptyFilter\<lparr>ids := Some [''ab''], since := Some 100,
              genericTagsCollection := Some [[''t:a'', ''t:b''], [], [''p:x'']]\<rparr>"
  have h: "genericTagsCollection ?f = Some [[''t:a'', ''t:b''], [], [''p:x'']]"
    by simp
  from buildSearchFilters_genericTags_clauses [OF h, of 1700000000] h
  show ?thesis by simp
qed

text \<open>
  C3. Whatever the filter and whatever the time, the first clause of the list built by
  \<open>buildSearchFilters\<close> is the time-validity clause
  \<open>expiredAt IS NULL OR expiredAt >= now\<close>, so the clause is in every built list.
\<close>

theorem buildSearchFilters_time_validity:
  "hd (buildSearchFilters now f) = ''expiredAt IS NULL OR expiredAt >= '' @ numberToString now
   \<and> ''expiredAt IS NULL OR expiredAt >= '' @ numberToString now
       \<in> set (buildSearchFilters now f)"
  by (simp add: buildSearchFilters_def del: append.simps)

text \<open>
  C4. Mapping an event to a document and back gives an event with the same \<open>id\<close>,
  \<open>pubkey\<close>, \<open>kind\<close>, \<open>content\<close>, \<open>sig\<close>, \<open>dTagValue\<close> and \<open>expiredAt\<close>.
\<close>

theorem toEvent_toEventDocument:
  "Event.id' (toEvent (toEventDocument e)) = Event.id' e
   \<and> Event.pubkey (toEvent (toEventDocument e)) = Event.pubkey e
   \<and> Event.kind (toEvent (toEventDocument e)) = Event.kind e
   \<and> Event.content (toEvent (toEventDocument e)) = Event.content e
   \<and> Event.sig (toEvent (toEventDocument e)) = Event.sig e
   \<and> Event.dTagValue (toEvent (toEventDocument e)) = Event.dTagValue e
   \<and> Event.expiredAt (toEvent (toEventDocument e)) = Event.expiredAt e"
  by (simp add: toEvent_def toEventDocument_def)

text \<open>
  C5. The claim is that a range clause is emitted exactly when its bound is present. The
  source tests the bound for truthiness, so a bound that is present and equal to \<open>0\<close>
  emits no clause: with \<open>until = 0\<close> (and likewise \<open>since = 0\<close>) the built list is the
  time-validity clause alone, and the clause \<open>createdAt <= 0\<close> is missing. The
  instance \<open>since = 100\<close>, \<open>until = 200\<close> does yield its two range clauses, and the
  filter with neither bound yields none.
\<close>

theorem buildSearchFilters_zero_bound_omitted:
  "buildSearchFilters 1700000000 (emptyFilter\<lparr>until := Some 0\<rparr>)
     = [''expiredAt IS NULL OR expiredAt >= 1700000000'']
   \<and> buildSearchFilters 1700000000 (emptyFilter\<lparr>since := Some 0\<rparr>)
     = [''expiredAt IS NULL OR expiredAt >= 1700000000'']
   \<and> buildSearchFilters 1700000000 (emptyFilter\<lparr>since := Some 100, until := Some 200\<rparr>)
     = [''expiredAt IS NULL OR expiredAt >= 1700000000'', ''createdAt >= 100'',
        ''createdAt <= 200'']
   \<and> buildSearchFilters 1700000000 emptyFilter
     = [''expiredAt IS NULL OR expiredAt >= 1700000000'']"
  by (simp add: buildSearchFilters_def emptyFilter_def numberToString_def showNat.simps)

subsection \<open>Behaviour of the operations\<close>

lemma find_limit0: "getLimitFrom f 100 = 0 \<Longrightarrow> find' r now f w = (Inr [], w)"
  by (simp add: find'_def split: option.split)

lemma findTopIdsWithScore_limit0:
  "getLimitFrom f 100 = 0 \<Longrightarrow> findTopIdsWithScore rnd r now f w = (Inr [], w)"
  by (simp add: findTopIdsWithScore_def split: option.split)

lemma find_world:
  "index r = Some idx \<Longrightarrow> getLimitFrom f 100 \<noteq> 0 \<Longrightarrow>
   snd (find' r now f w) =
     issue (Search (EventSearchRepositoryFilter.search f)
              \<lparr> search_params.limit = getLimitFrom f 100, filter' = buildSearchFilters now f,
                sort' = Some [''createdAt:desc''], attributesToRetrieve = None,
                showRankingScore = None \<rparr>) w"
  by (simp add: find'_def Let_def)

lemma findTopIdsWithScore_world:
  "index r = Some idx \<Longrightarrow> getLimitFrom f 100 \<noteq> 0 \<Longrightarrow>
   snd (findTopIdsWithScore rnd r now f w) =
     issue (Search (EventSearchRepositoryFilter.search f)
              \<lparr> search_params.limit = getLimitFrom f 100, filter' = buildSearchFilters now f,
                sort' = None, attributesToRetrieve = Some [''id'', ''createdAt''],
                showRankingScore = Some True \<rparr>) w"
  by (simp add: findTopIdsWithScore_def Let_def)

lemma findTopIdsWithScore_result:
  "index r = Some idx \<Longrightarrow> getLimitFrom f 100 \<noteq> 0 \<Longrightarrow>
   search idx (EventSearchRepositoryFilter.search f)
     \<lparr> search_params.limit = getLimitFrom f 100, filter' = buildSearchFilters now f,
       sort' = None, attributesToRetrieve = Some [''id'', ''createdAt''],
       showRankingScore = Some True \<rparr> = Inr hits \<Longrightarrow>
   fst (findTopIdsWithScore rnd r now f w) =
     Inr (map (\<lambda>h. \<lparr> TEventIdWithScore.id' = EventDocument.id' h,
                      score =
                        rnd (of_int (EventDocument.createdAt h)
                          * rnd (1 + (case rankingScore h of None \<Rightarrow> 0 | Some s \<Rightarrow> s))) \<rparr>)
            hits)"
  by (simp add: findTopIdsWithScore_def Let_def)

lemma add_disabled: "index r = None \<Longrightarrow> add r e w = (Inr (), w)"
  by (simp add: add_def)

lemma add_gated: "Event.kind e \<notin> set (syncEventKinds r) \<Longrightarrow> add r e w = (Inr (), w)"
  by (simp add: add_def split: option.split)

lemma add_enabled:
  "index r = Some idx \<Longrightarrow> Event.kind e \<in> set (syncEventKinds r) \<Longrightarrow>
   add r e w =
     (Inr (),
      \<lparr> calls = calls w @ [AddDocuments [toEventDocument e]],
        logged = logged w
          @ (case addDocuments idx [toEventDocument e] of Inl err \<Rightarrow> [err] | Inr _ \<Rightarrow> []) \<rparr>)"
  by (cases w) (simp add: add_def issue_def logError_def Let_def split: sum.split)

lemma deleteMany_disabled: "index r = None \<Longrightarrow> deleteMany r eventIds w = (Inr (), w)"
  by (simp add: deleteMany_def)

lemma deleteMany_enabled:
  "index r = Some idx \<Longrightarrow>
   deleteMany r eventIds w =
     (Inr (),
      \<lparr> calls = calls w @ [DeleteDocuments eventIds],
        logged = logged w
          @ (case deleteDocuments idx eventIds of Inl err \<Rightarrow> [err] | Inr _ \<Rightarrow> []) \<rparr>)"
  by (cases w) (simp add: deleteMany_def issue_def logError_def Let_def split: sum.split)

lemma add_resolves: "fst (add r e w) = Inr ()"
  by (simp add: add_def Let_def split: option.split sum.split)

lemma deleteMany_resolves: "fst (deleteMany r eventIds w) = Inr ()"
  by (simp add: deleteMany_def Let_def split: option.split sum.split)

lemma add_phases:
  "add r e w = (Inr (), settle (fst (addStart r e w)) (snd (addStart r e w)))"
  by (simp add: add_def addStart_def settle_def Let_def split: option.split sum.split)

lemma deleteMany_phases:
  "deleteMany r eventIds w
     = (Inr (), settle (fst (deleteManyStart r eventIds w)) (snd (deleteManyStart r eventIds w)))"
  by (simp add: deleteMany_def deleteManyStart_def settle_def Let_def
        split: option.split sum.split)

lemma addStart_gated:
  "Event.kind e \<notin> set (syncEventKinds r) \<Longrightarrow> addStart r e w = (None, w)"
  by (simp add: addStart_def split: option.split)

lemma addStart_enabled:
  "index r = Some idx \<Longrightarrow> Event.kind e \<in> set (syncEventKinds r) \<Longrightarrow>
   addStart r e w
     = (Some (addDocuments idx [toEventDocument e]), issue (AddDocuments [toEventDocument e]) w)"
  by (simp add: addStart_def Let_def)

lemma deleteManyStart_enabled:
  "index r = Some idx \<Longrightarrow>
   deleteManyStart r eventIds w = (Some (deleteDocuments idx eventIds), issue (DeleteDocuments eventIds) w)"
  by (simp add: deleteManyStart_def)

lemma calls_settle: "calls (settle a w) = calls w"
  by (simp add: settle_def logError_def split: option.split sum.split)

lemma logged_settle:
  "logged (settle a w)
     = logged w @ (case a of None \<Rightarrow> [] | Some (Inl err) \<Rightarrow> [err] | Some (Inr _) \<Rightarrow> [])"
  by (simp add: settle_def logError_def split: option.split sum.split)

lemma replace_disabled: "index r = None \<Longrightarrow> replace r e oid arr w = (Inr (), w)"
  by (simp add: replace_def)

lemma replace_resolves: "fst (replace r e oid arr w) = Inr ()"
  by (simp add: replace_def Let_def split: option.split prod.split)

lemma replace_calls:
  "index r = Some idx \<Longrightarrow> oid \<noteq> [] \<Longrightarrow>
   calls (snd (replace r e (Some oid) arr w))
     = calls w
       @ (if Event.kind e \<in> set (syncEventKinds r)
          then [AddDocuments [toEventDocument e]] else [])
       @ [DeleteDocuments [oid]]"
  by (cases arr; cases "Event.kind e \<in> set (syncEventKinds r)")
    (simp_all add: replace_def addStart_enabled addStart_gated deleteManyStart_enabled
       calls_settle issue_def)

lemma replace_logged:
  "index r = Some idx \<Longrightarrow> oid \<noteq> [] \<Longrightarrow>
   logged (snd (replace r e (Some oid) arr w))
     = logged w
       @ (let a = (if Event.kind e \<in> set (syncEventKinds r)
                   then (case addDocuments idx [toEventDocument e] of
                           Inl err \<Rightarrow> [err] | Inr _ \<Rightarrow> [])
                   else []);
              d = (case deleteDocuments idx [oid] of Inl err \<Rightarrow> [err] | Inr _ \<Rightarrow> [])
          in case arr of AddFirst \<Rightarrow> a @ d | DeleteFirst \<Rightarrow> d @ a)"
  by (cases arr; cases "Event.kind e \<in> set (syncEventKinds r)")
    (simp_all add: replace_def addStart_enabled addStart_gated deleteManyStart_enabled
       logged_settle issue_def split: sum.split)

lemma binary64_exact:
  "binary64 1 = 1" "binary64 (3 / 2) = 3 / 2" "binary64 1000 = 1000" "binary64 1500 = 1500"
  by (simp_all add: binary64_def scale.simps roundHalfEven_def)

lemma binary64_tenth: "binary64 (1 / 10) = 3602879701896397 / 36028797018963968"
  by (simp add: binary64_def scale.simps roundHalfEven_def)

lemma onApplicationBootstrap_disabled:
  "index r = None \<Longrightarrow> onApplicationBootstrap r w = (Inr (), w)"
  by (simp add: onApplicationBootstrap_def)

lemma find_disabled: "index r = None \<Longrightarrow> find' r now f w = (Inr [], w)"
  by (simp add: find'_def)

lemma findTopIdsWithScore_disabled:
  "index r = None \<Longrightarrow> findTopIdsWithScore rnd r now f w = (Inr [], w)"
  by (simp add: findTopIdsWithScore_def)

text \<open>
  C2. The limit resolved by \<open>getLimitFrom\<close> with the default \<open>100\<close> is the minimum of
  \<open>1000\<close> and the filter's limit, or of \<open>1000\<close> and \<open>100\<close> when the filter has none.
  When it is \<open>0\<close>, \<open>find\<close> and \<open>findTopIdsWithScore\<close> resolve with the empty list
  and leave the world as it was: no engine call. When the repository is enabled and the
  resolved limit is not \<open>0\<close>, each of the two issues exactly one search call, whose
  \<open>limit\<close> parameter is that resolved limit.
\<close>

theorem resolved_limit_and_short_circuit:
  "getLimitFrom f 100
     = min (case EventSearchRepositoryFilter.limit f of None \<Rightarrow> 100 | Some l \<Rightarrow> l) 1000
   \<and> (getLimitFrom f 100 = 0 \<longrightarrow>
        find' r now f w = (Inr [], w) \<and> findTopIdsWithScore rnd r now f w = (Inr [], w))
   \<and> (index r = Some idx \<and> getLimitFrom f 100 \<noteq> 0 \<longrightarrow>
        snd (find' r now f w) =
          issue (Search (EventSearchRepositoryFilter.search f)
            \<lparr> search_params.limit =
                min (case EventSearchRepositoryFilter.limit f of None \<Rightarrow> 100 | Some l \<Rightarrow> l) 1000,
              filter' = buildSearchFilters now f,
              sort' = Some [''createdAt:desc''], attributesToRetrieve = None,
              showRankingScore = None \<rparr>) w
        \<and> snd (findTopIdsWithScore rnd r now f w) =
          issue (Search (EventSearchRepositoryFilter.search f)
            \<lparr> search_params.limit =
                min (case EventSearchRepositoryFilter.limit f of None \<Rightarrow> 100 | Some l \<Rightarrow> l) 1000,
              filter' = buildSearchFilters now f,
              sort' = None, attributesToRetrieve = Some [''id'', ''createdAt''],
              showRankingScore = Some True \<rparr>) w)"
proof -
  have g: "getLimitFrom f 100
     = min (case EventSearchRepositoryFilter.limit f of None \<Rightarrow> 100 | Some l \<Rightarrow> l) 1000"
    by (simp add: getLimitFrom_def)
  have z: "find' r now f w = (Inr [], w) \<and> findTopIdsWithScore rnd r now f w = (Inr [], w)"
    if "getLimitFrom f 100 = 0"
    using that by (simp add: find_limit0 findTopIdsWithScore_limit0)
  have n: "snd (find' r now f w) =
          issue (Search (EventSearchRepositoryFilter.search f)
            \<lparr> search_params.limit = getLimitFrom f 100,
              filter' = buildSearchFilters now f,
              sort' = Some [''createdAt:desc''], attributesToRetrieve = None,
              showRankingScore = None \<rparr>) w
        \<and> snd (findTopIdsWithScore rnd r now f w) =
          issue (Search (EventSearchRepositoryFilter.search f)
            \<lparr> search_params.limit = getLimitFrom f 100,
              filter' = buildSearchFilters now f,
              sort' = None, attributesToRetrieve = Some [''id'', ''createdAt''],
              showRankingScore = Some True \<rparr>) w"
    if "index r = Some idx \<and> getLimitFrom f 100 \<noteq> 0"
    using that by (simp add: find_world findTopIdsWithScore_world)
  from z n show ?thesis unfolding g [symmetric] by blast
qed

theorem resolved_limit_and_short_circuit_witness:
  "find' (stubRepository False False) 1700000000
       (emptyFilter\<lparr>EventSearchRepositoryFilter.limit := Some 0\<rparr>) quiet = (Inr [], quiet)
   \<and> findTopIdsWithScore binary64 (stubRepository False False) 1700000000
       (emptyFilter\<lparr>EventSearchRepositoryFilter.limit := Some 0\<rparr>) quiet = (Inr [], quiet)
   \<and> getLimitFrom (emptyFilter\<lparr>EventSearchRepositoryFilter.limit := Some 5000\<rparr>) 100 = 1000
   \<and> getLimitFrom emptyFilter 100 = 100
   \<and> calls (snd (find' (stubRepository False False) 1700000000
               (emptyFilter\<lparr>EventSearchRepositoryFilter.limit := Some 5000\<rparr>) quiet))
     = [Search [] \<lparr> search_params.limit = 1000,
                    filter' = [''expiredAt IS NULL OR expiredAt >= 1700000000''],
                    sort' = Some [''createdAt:desc''], attributesToRetrieve = None,
                    showRankingScore = None \<rparr>]
   \<and> calls (snd (findTopIdsWithScore binary64 (stubRepository False False) 1700000000
               (emptyFilter\<lparr>EventSearchRepositoryFilter.limit := Some 5000\<rparr>) quiet))
     = [Search [] \<lparr> search_params.limit = 1000,
                    filter' = [''expiredAt IS NULL OR expiredAt >= 1700000000''],
                    sort' = None, attributesToRetrieve = Some [''id'', ''createdAt''],
                    showRankingScore = Some True \<rparr>]"
proof -
  have i: "index (stubRepository False False) = Some (stubEngine False False)"
    by (simp add: stubRepository_def)
  note t = resolved_limit_and_short_circuit
             [where r = "stubRepository False False" and now = 1700000000 and w = quiet
                and rnd = binary64 and idx = "stubEngine False False"]
  from t [where f = "emptyFilter\<lparr>EventSearchRepositoryFilter.limit := Some 0\<rparr>"]
       t [where f = "emptyFilter\<lparr>EventSearchRepositoryFilter.limit := Some 5000\<rparr>"]
       t [where f = emptyFilter]
  show ?thesis
    by (simp add: i emptyFilter_def buildSearchFilters_def numberToString_now issue_def quiet_def)
qed

text \<open>
  C6. When the engine answers the scored search with the hits \<open>hits\<close>,
  \<open>findTopIdsWithScore\<close> resolves with one pair per hit, in order, holding the hit's
  id and the score \<open>createdAt * (1 + rankingScore)\<close> as binary64 arithmetic computes
  it: the sum \<open>1 + rankingScore\<close> rounded, times \<open>createdAt\<close>, rounded; an absent
  ranking score counts as \<open>0\<close>. This holds for every rounding \<open>rnd\<close>. With the
  rounding of binary64, the instance that follows gives \<open>1500\<close> for \<open>createdAt = 1000\<close>
  with ranking score \<open>0.5\<close> and \<open>1000\<close> for \<open>createdAt = 1000\<close> with ranking score
  \<open>0\<close> or none (both operations are exact there), and \<open>7843348480000001 / 2^22\<close>,
  printed \<open>1870000000.0000002\<close>, for \<open>createdAt = 1700000000\<close> with the binary64
  number nearest to \<open>0.1\<close>.
\<close>

theorem findTopIdsWithScore_score:
  assumes "index r = Some idx" and "getLimitFrom f 100 \<noteq> 0"
    and "search idx (EventSearchRepositoryFilter.search f)
           \<lparr> search_params.limit = getLimitFrom f 100, filter' = buildSearchFilters now f,
             sort' = None, attributesToRetrieve = Some [''id'', ''createdAt''],
             showRankingScore = Some True \<rparr> = Inr hits"
  shows "fst (findTopIdsWithScore rnd r now f w) =
     Inr (map (\<lambda>h. \<lparr> TEventIdWithScore.id' = EventDocument.id' h,
                      score =
                        rnd (of_int (EventDocument.createdAt h)
                          * rnd (1 + (case rankingScore h of None \<Rightarrow> 0 | Some s \<Rightarrow> s))) \<rparr>)
            hits)"
  using assms by (rule findTopIdsWithScore_result)

theorem findTopIdsWithScore_score_witness:
  "index (stubRepository False False) = Some (stubEngine False False)
   \<and> getLimitFrom emptyFilter 100 \<noteq> 0
   \<and> fst (findTopIdsWithScore binary64 (stubRepository False False) 1700000000 emptyFilter
           quiet)
     = Inr [\<lparr> TEventIdWithScore.id' = ''a'', score = 1500 \<rparr>,
            \<lparr> TEventIdWithScore.id' = ''b'', score = 1000 \<rparr>,
            \<lparr> TEventIdWithScore.id' = ''c'', score = 1000 \<rparr>,
            \<lparr> TEventIdWithScore.id' = ''d'', score = 7843348480000001 / 4194304 \<rparr>]"
proof -
  have i: "index (stubRepository False False) = Some (stubEngine False False)"
    by (simp add: stubRepository_def)
  have l: "getLimitFrom emptyFilter 100 \<noteq> 0"
    by (simp add: getLimitFrom_def emptyFilter_def)
  have s: "search (stubEngine False False) (EventSearchRepositoryFilter.search emptyFilter)
           \<lparr> search_params.limit = getLimitFrom emptyFilter 100,
             filter' = buildSearchFilters 1700000000 emptyFilter,
             sort' = None, attributesToRetrieve = Some [''id'', ''createdAt''],
             showRankingScore = Some True \<rparr>
           = Inr [scoredHit ''a'' 1000 (Some (1 / 2)), scoredHit ''b'' 1000 (Some 0),
                  scoredHit ''c'' 1000 None,
                  scoredHit ''d'' 1700000000 (Some (3602879701896397 / 36028797018963968))]"
    by (simp add: stubEngine_def)
  have a: "binary64 (1000 * binary64 (1 + 1 / 2)) = 1500"
    by (simp add: binary64_exact)
  have b: "binary64 (1000 * binary64 (1 + 0)) = 1000"
    by (simp add: binary64_exact)
  have d: "binary64 (1700000000 * binary64 (1 + 3602879701896397 / 36028797018963968))
             = 7843348480000001 / 4194304"
    by (simp add: binary64_def scale.simps roundHalfEven_def)
  from findTopIdsWithScore_score [OF i l s, where rnd = binary64 and w = quiet] i l
  show ?thesis
    using a b d by (simp add: scoredHit_def)
qed

text \<open>
  C7. For an event whose kind is not in \<open>syncEventKinds\<close>, \<open>add\<close> resolves and leaves
  the world as it was: no engine call, nothing logged, no error. When the repository is
  enabled and the kind is in the list, \<open>add\<close> resolves, issues exactly one
  \<open>addDocuments\<close> call carrying exactly the one document of the event, and logs the
  engine's error if the call fails: the failure is not the outcome of \<open>add\<close>.
\<close>

theorem add_gate_and_failure_isolation:
  "(Event.kind e \<notin> set (syncEventKinds r) \<longrightarrow> add r e w = (Inr (), w))
   \<and> (index r = Some idx \<and> Event.kind e \<in> set (syncEventKinds r) \<longrightarrow>
        fst (add r e w) = Inr ()
        \<and> calls (snd (add r e w)) = calls w @ [AddDocuments [toEventDocument e]]
        \<and> logged (snd (add r e w)) = logged w
            @ (case addDocuments idx [toEventDocument e] of Inl err \<Rightarrow> [err] | Inr _ \<Rightarrow> []))"
  by (simp add: add_gated add_enabled)

theorem add_gate_and_failure_isolation_witness:
  "add (stubRepository True False) (noteEvent 7) quiet = (Inr (), quiet)
   \<and> fst (add (stubRepository True False) (noteEvent 1) quiet) = Inr ()
   \<and> calls (snd (add (stubRepository True False) (noteEvent 1) quiet))
       = [AddDocuments [toEventDocument (noteEvent 1)]]
   \<and> logged (snd (add (stubRepository True False) (noteEvent 1) quiet))
       = [EngineError ''add'']
   \<and> logged (snd (add (stubRepository False False) (noteEvent 1) quiet)) = []"
  using add_gate_and_failure_isolation [of "noteEvent 7" "stubRepository True False" quiet "stubEngine True False"]
    add_gate_and_failure_isolation [of "noteEvent 1" "stubRepository True False" quiet "stubEngine True False"]
    add_gate_and_failure_isolation [of "noteEvent 1" "stubRepository False False" quiet "stubEngine False False"]
  by (simp add: stubRepository_def stubEngine_def noteEvent_def quiet_def)

text \<open>
  C8. With no index handle, \<open>find\<close> and \<open>findTopIdsWithScore\<close> resolve with the
  empty list, and \<open>add\<close>, \<open>deleteMany\<close>, \<open>replace\<close> and
  \<open>onApplicationBootstrap\<close> resolve; none of the six issues an engine call or logs
  anything.
\<close>

theorem disabled_search_is_noop:
  assumes "index r = None"
  shows "find' r now f w = (Inr [], w)
       \<and> findTopIdsWithScore rnd r now f w = (Inr [], w)
       \<and> add r e w = (Inr (), w)
       \<and> deleteMany r eventIds w = (Inr (), w)
       \<and> replace r e oldEventId arr w = (Inr (), w)
       \<and> onApplicationBootstrap r w = (Inr (), w)"
  using assms
  by (simp add: find_disabled findTopIdsWithScore_disabled add_disabled deleteMany_disabled
        replace_disabled onApplicationBootstrap_disabled)

theorem disabled_search_is_noop_witness:
  "index disabledRepository = None
   \<and> find' disabledRepository 1700000000 emptyFilter quiet = (Inr [], quiet)
   \<and> findTopIdsWithScore binary64 disabledRepository 1700000000 emptyFilter quiet = (Inr [], quiet)
   \<and> add disabledRepository (noteEvent 1) quiet = (Inr (), quiet)
   \<and> deleteMany disabledRepository [''e0''] quiet = (Inr (), quiet)
   \<and> replace disabledRepository (noteEvent 1) (Some ''e0'') DeleteFirst quiet
       = (Inr (), quiet)
   \<and> onApplicationBootstrap disabledRepository quiet = (Inr (), quiet)"
proof -
  have h: "index disabledRepository = None"
    by (simp add: disabledRepository_def)
  from disabled_search_is_noop
         [OF h, where now = 1700000000 and f = emptyFilter and w = quiet and rnd = binary64
            and e = "noteEvent 1" and eventIds = "[''e0'']" and oldEventId = "Some ''e0''"
            and arr = DeleteFirst] h
  show ?thesis by simp
qed

text \<open>
  C9. For an enabled repository and a supplied old id (one the source's test
  \<open>oldEventId ? ... : undefined\<close> accepts, that is a non-empty string), and for either
  order in which the two answers arrive, \<open>replace\<close> resolves, and it has run both
  sub-calls: the \<open>deleteDocuments\<close> call is issued whatever \<open>addDocuments\<close> answers,
  the \<open>addDocuments\<close> call (which \<open>add\<close> issues when the kind passes the sync gate) is
  issued whatever \<open>deleteDocuments\<close> answers, and the errors logged by \<open>replace\<close> are,
  in some order, the failure of the one and the failure of the other, when they fail.
  No failure is propagated. The theorem holds for every engine, so also for one that
  fails either call or both.
\<close>

theorem replace_attempts_add_and_delete:
  assumes "index r = Some idx" and "oid \<noteq> []"
  shows "fst (replace r e (Some oid) arr w) = Inr ()
       \<and> calls (snd (replace r e (Some oid) arr w))
           = calls w
             @ (if Event.kind e \<in> set (syncEventKinds r)
                then [AddDocuments [toEventDocument e]] else [])
             @ [DeleteDocuments [oid]]
       \<and> (\<exists>new. logged (snd (replace r e (Some oid) arr w)) = logged w @ new
             \<and> mset new
                 = mset (if Event.kind e \<in> set (syncEventKinds r)
                         then (case addDocuments idx [toEventDocument e] of
                                 Inl err \<Rightarrow> [err] | Inr _ \<Rightarrow> [])
                         else [])
                   + mset (case deleteDocuments idx [oid] of
                             Inl err \<Rightarrow> [err] | Inr _ \<Rightarrow> []))"
proof (intro conjI)
  show "fst (replace r e (Some oid) arr w) = Inr ()"
    by (rule replace_resolves)
  show "calls (snd (replace r e (Some oid) arr w))
           = calls w
             @ (if Event.kind e \<in> set (syncEventKinds r)
                then [AddDocuments [toEventDocument e]] else [])
             @ [DeleteDocuments [oid]]"
    using assms by (rule replace_calls)
  show "\<exists>new. logged (snd (replace r e (Some oid) arr w)) = logged w @ new
             \<and> mset new
                 = mset (if Event.kind e \<in> set (syncEventKinds r)
                         then (case addDocuments idx [toEventDocument e] of
                                 Inl err \<Rightarrow> [err] | Inr _ \<Rightarrow> [])
                         else [])
                   + mset (case deleteDocuments idx [oid] of
                             Inl err \<Rightarrow> [err] | Inr _ \<Rightarrow> [])"
    unfolding replace_logged [OF assms]
    by (cases arr) (simp_all add: Let_def)
qed

theorem replace_attempts_add_and_delete_witness:
  "index (stubRepository True True) = Some (stubEngine True True)
   \<and> replace (stubRepository True False) (noteEvent 1) (Some ''e0'') AddFirst quiet
     = (Inr (), \<lparr> calls = [AddDocuments [toEventDocument (noteEvent 1)], DeleteDocuments [''e0'']],
                  logged = [EngineError ''add''] \<rparr>)
   \<and> replace (stubRepository False True) (noteEvent 1) (Some ''e0'') AddFirst quiet
     = (Inr (), \<lparr> calls = [AddDocuments [toEventDocument (noteEvent 1)], DeleteDocuments [''e0'']],
                  logged = [EngineError ''delete''] \<rparr>)
   \<and> replace (stubRepository True True) (noteEvent 1) (Some ''e0'') AddFirst quiet
     = (Inr (), \<lparr> calls = [AddDocuments [toEventDocument (noteEvent 1)], DeleteDocuments [''e0'']],
                  logged = [EngineError ''add'', EngineError ''delete''] \<rparr>)
   \<and> replace (stubRepository True True) (noteEvent 1) (Some ''e0'') DeleteFirst quiet
     = (Inr (), \<lparr> calls = [AddDocuments [toEventDocument (noteEvent 1)], DeleteDocuments [''e0'']],
                  logged = [EngineError ''delete'', EngineError ''add''] \<rparr>)"
proof -
  have i: "index (stubRepository a d) = Some (stubEngine a d)" for a d
    by (simp add: stubRepository_def)
  have n: "''e0'' \<noteq> []" by simp
  note t = replace_attempts_add_and_delete [OF i n, where e = "noteEvent 1" and w = quiet]
  from t [of True False AddFirst] t [of False True AddFirst]
       t [of True True AddFirst] t [of True True DeleteFirst] i [of True True]
  show ?thesis
    by (simp add: stubRepository_def stubEngine_def noteEvent_def quiet_def replace_def
          addStart_def deleteManyStart_def settle_def issue_def logError_def)
qed

text \<open>
  C10. For an enabled repository, a supplied (non-empty) old id and an event whose kind
  is outside \<open>syncEventKinds\<close>, \<open>replace\<close> resolves and issues exactly one engine
  call, the deletion of the old id; it issues no \<open>addDocuments\<close> call. This holds for
  either order of arrival.
\<close>

theorem replace_outside_allow_list_still_deletes:
  assumes "index r = Some idx" and "oid \<noteq> []"
    and "Event.kind e \<notin> set (syncEventKinds r)"
  shows "fst (replace r e (Some oid) arr w) = Inr ()
       \<and> calls (snd (replace r e (Some oid) arr w)) = calls w @ [DeleteDocuments [oid]]
       \<and> (\<forall>docs. AddDocuments docs
             \<notin> set (drop (length (calls w)) (calls (snd (replace r e (Some oid) arr w)))))"
  using assms
  by (simp add: replace_resolves replace_calls)

theorem replace_outside_allow_list_still_deletes_witness:
  "index (stubRepository False False) = Some (stubEngine False False)
   \<and> Event.kind (noteEvent 7) \<notin> set (syncEventKinds (stubRepository False False))
   \<and> fst (replace (stubRepository False False) (noteEvent 7) (Some ''e0'') AddFirst quiet)
       = Inr ()
   \<and> calls (snd (replace (stubRepository False False) (noteEvent 7) (Some ''e0'') AddFirst
                   quiet))
       = [DeleteDocuments [''e0'']]"
proof -
  have i: "index (stubRepository False False) = Some (stubEngine False False)"
    by (simp add: stubRepository_def)
  have n: "''e0'' \<noteq> []" by simp
  have k: "Event.kind (noteEvent 7) \<notin> set (syncEventKinds (stubRepository False False))"
    by (simp add: stubRepository_def noteEvent_def)
  from replace_outside_allow_list_still_deletes [OF i n k, where w = quiet and arr = AddFirst]
       i k
  show ?thesis
    by (simp add: quiet_def)
qed

end
